theory Spec2Isabelle
  imports Complex_Main "HOL-Library.Char_ord" "HOL-Library.List_Lexorder"
    "HOL-Library.Product_Lexorder" "HOL-Library.Multiset"
begin

section \<open>Tables of visit records\<close>

text \<open>
  The dashboard keeps its data in a table of the data-frame library. A cell of such a
  table is a string or a number as the sheet client delivers them, or one of the values
  the loader derives: a boolean, a timestamp, a list of issue tags, or the missing-value
  marker (NaN, NaT). Text is a list of characters, a number is a rational, a timestamp
  is a calendar day (counted in days) with a time of day (counted in seconds).
\<close>

datatype timestamp = Timestamp (day_of: int) (second_of: nat)

datatype cell =
    Str string
  | Num rat
  | Bool bool
  | Time timestamp
  | Tags "string list"
  | Null

text \<open>
  A table has its column labels and its rows, the cells of a row in the order of the
  labels. \<open>pd.DataFrame()\<close> is the table with no column and no row.
\<close>

record frame =
  columns :: "string list"
  rows :: "cell list list"

definition empty_frame :: frame where
  "empty_frame = \<lparr>columns = [], rows = []\<rparr>"

text \<open>What the program can raise. \<open>External\<close> is an exception of a library call
  whose outcome the model takes as given (credentials, network, timestamp parsing, a
  widget); \<open>AmbiguousColumn\<close> stands for the exception of a series operation applied
  to a label that selects several columns.\<close>

datatype error =
    KeyError string
  | AttributeError string
  | TypeError string
  | IndexError string
  | ValueError string
  | AmbiguousColumn string
  | External string

text \<open>The positions of the columns with a given label.\<close>

definition positions :: "string \<Rightarrow> string list \<Rightarrow> nat list" where
  "positions c cols = filter (\<lambda>i. cols ! i = c) [0..<length cols]"

definition cell_at :: "cell list \<Rightarrow> nat \<Rightarrow> cell" where
  "cell_at r i = (if i < length r then r ! i else Null)"

text \<open>\<open>df[c]\<close>: the series of column \<open>c\<close>; a label the table does not have
  raises \<open>KeyError\<close>.\<close>

definition getcol :: "frame \<Rightarrow> string \<Rightarrow> error + cell list" where
  "getcol df c =
     (case positions c (columns df) of
        [] \<Rightarrow> Inl (KeyError c)
      | [i] \<Rightarrow> Inr (map (\<lambda>r. cell_at r i) (rows df))
      | _ \<Rightarrow> Inl (AmbiguousColumn c))"

text \<open>Writing a cell of a row; a row shorter than the position is filled with
  missing values first, which is how \<open>cell_at\<close> reads it.\<close>

definition set_cell :: "cell list \<Rightarrow> nat \<Rightarrow> cell \<Rightarrow> cell list" where
  "set_cell r i v =
     (if i < length r then r[i := v] else r @ replicate (i - length r) Null @ [v])"

text \<open>\<open>df[c] = values\<close>: the values replace the cells of every column labelled
  \<open>c\<close>, or become a new last column when there is none; values that are not one per
  row raise \<open>ValueError\<close>.\<close>

definition setcol :: "frame \<Rightarrow> string \<Rightarrow> cell list \<Rightarrow> error + frame" where
  "setcol df c vs =
     (if length vs \<noteq> length (rows df)
      then Inl (ValueError ''Length of values does not match length of index'')
      else
        (case positions c (columns df) of
           [] \<Rightarrow>
             Inr \<lparr>columns = columns df @ [c],
                  rows = map (\<lambda>(r, v). set_cell r (length (columns df)) v) (zip (rows df) vs)\<rparr>
         | ps \<Rightarrow>
             Inr (df\<lparr>rows := map (\<lambda>(r, v). fold (\<lambda>i r. set_cell r i v) ps r)
                              (zip (rows df) vs)\<rparr>)))"

text \<open>The distinct elements of a list in the order of their first occurrence
  (\<open>Series.unique\<close>, and the order in which a table collects the keys of its
  rows).\<close>

definition unique :: "'a list \<Rightarrow> 'a list" where
  "unique xs = rev (remdups (rev xs))"

text \<open>\<open>pd.DataFrame(data)\<close> for a list of dictionaries, one per row: the columns
  are the keys, a key that a row does not have is a missing value there.\<close>

definition DataFrame :: "(string \<times> cell) list list \<Rightarrow> frame" where
  "DataFrame data =
     (let cols = unique (concat (map (map fst) data))
      in \<lparr>columns = cols,
          rows = map (\<lambda>d. map (\<lambda>c. case map_of d c of Some v \<Rightarrow> v | None \<Rightarrow> Null) cols) data\<rparr>)"

section \<open>The loader\<close>

subsection \<open>Column names\<close>

text \<open>Lines 50 to 56: \<open>df.rename(columns={...})\<close> replaces each label that is a key
  of the table by its value and keeps every other label.\<close>

definition rename_table :: "(string \<times> string) list" where
  "rename_table =
     [(''buy now'', ''buy_now''),
      (''dealer code'', ''dealer_code''),
      (''Hatla2ee link'', ''hatla2ee_link''),
      (''dubizzle link'', ''dubizzle_link''),
      (''showroom capacity'', ''showroom_capacity'')]"

definition rename_label :: "string \<Rightarrow> string" where
  "rename_label c = (case map_of rename_table c of Some n \<Rightarrow> n | None \<Rightarrow> c)"

definition rename :: "frame \<Rightarrow> frame" where
  "rename df = df\<lparr>columns := map rename_label (columns df)\<rparr>"

subsection \<open>Yes/No columns\<close>

text \<open>Line 63: \<open>df[col].map({'Yes': True, 'No': False})\<close> looks each cell up in
  the dictionary; a cell that is not a key becomes the missing value.\<close>

definition yes_no :: "cell \<Rightarrow> cell" where
  "yes_no c = (if c = Str ''Yes'' then Bool True else if c = Str ''No'' then Bool False else Null)"

subsection \<open>Issue tags\<close>

text \<open>\<open>s.split(sep)\<close> with a non-empty separator: the pieces of \<open>s\<close> between the
  occurrences of \<open>sep\<close>, found from the left and not overlapping. \<open>acc\<close> holds the
  characters of the current piece, last first.\<close>

fun split_from :: "string \<Rightarrow> string \<Rightarrow> string \<Rightarrow> string list" where
  "split_from sep acc [] = [rev acc]"
| "split_from sep acc (c # cs) =
     (if sep \<noteq> [] \<and> take (length sep) (c # cs) = sep
      then rev acc # split_from sep [] (drop (length sep) (c # cs))
      else split_from sep (c # acc) cs)"

definition split :: "string \<Rightarrow> string \<Rightarrow> string list" where
  "split sep s = split_from sep [] s"

text \<open>Line 66: \<open>df['issues'].str.split(', ')\<close> splits each string cell; a cell that
  is not a string becomes the missing value.\<close>

definition split_cell :: "cell \<Rightarrow> cell" where
  "split_cell c = (case c of Str s \<Rightarrow> Tags (split '', '' s) | _ \<Rightarrow> Null)"

text \<open>The \<open>.str\<close> accessor exists on a column of text only: on a column that
  holds no string at all (a numeric column) it raises.\<close>

definition is_str :: "cell \<Rightarrow> bool" where
  "is_str c = (case c of Str s \<Rightarrow> True | _ \<Rightarrow> False)"

definition str_split :: "cell list \<Rightarrow> error + cell list" where
  "str_split cs =
     (if cs \<noteq> [] \<and> \<not> list_ex is_str cs
      then Inl (AttributeError ''Can only use .str accessor with string values!'')
      else Inr (map split_cell cs))"

subsection \<open>The loading sequence\<close>

text \<open>
  The outcome of every call that leaves the program is given: the two ways to the
  credentials, the connection, the document, the worksheet and its records (\<open>None\<close>
  is success, \<open>Some e\<close> the exception \<open>e\<close>), and \<open>pd.to_datetime\<close>, which parses
  a whole column or raises.
\<close>

record env =
  from_service_account_file :: "error option"
  from_service_account_info :: "error option"
  authorize :: "error option"
  open_spreadsheet :: "error option"
  worksheet :: "error option"
  get_all_records :: "error + (string \<times> cell) list list"
  to_datetime :: "cell list \<Rightarrow> error + cell list"

text \<open>Lines 28 to 33: the credential file first; on any exception, the secrets.\<close>

definition credentials :: "env \<Rightarrow> error option" where
  "credentials env =
     (case from_service_account_file env of
        None \<Rightarrow> None
      | Some _ \<Rightarrow> from_service_account_info env)"

text \<open>Lines 35 to 44.\<close>

definition fetch :: "env \<Rightarrow> error + (string \<times> cell) list list" where
  "fetch env =
     (case credentials env of Some e \<Rightarrow> Inl e | None \<Rightarrow>
      case authorize env of Some e \<Rightarrow> Inl e | None \<Rightarrow>
      case open_spreadsheet env of Some e \<Rightarrow> Inl e | None \<Rightarrow>
      case worksheet env of Some e \<Rightarrow> Inl e | None \<Rightarrow>
      get_all_records env)"

definition bool_columns :: "string list" where
  "bool_columns = [''showroom'', ''swift'', ''lending'', ''buy_now'']"

text \<open>Lines 62 and 63, the loop over the four columns. The table is changed in place,
  so an exception leaves the table as it is at that moment.\<close>

fun coerce_columns :: "string list \<Rightarrow> frame \<Rightarrow> (error \<times> frame) + frame" where
  "coerce_columns [] df = Inr df"
| "coerce_columns (col # cols) df =
     (case getcol df col of Inl e \<Rightarrow> Inl (e, df) | Inr cs \<Rightarrow>
      case setcol df col (map yes_no cs) of Inl e \<Rightarrow> Inl (e, df) | Inr df' \<Rightarrow>
      coerce_columns cols df')"

text \<open>Lines 50 to 68. An exception comes with the table that the variable \<open>df\<close>
  holds when it is raised.\<close>

definition normalise :: "(cell list \<Rightarrow> error + cell list) \<Rightarrow> frame \<Rightarrow> (error \<times> frame) + frame" where
  "normalise to_dt df0 =
     (let df = rename df0 in
      case getcol df ''submitted_datetime'' of Inl e \<Rightarrow> Inl (e, df) | Inr raw \<Rightarrow>
      case to_dt raw of Inl e \<Rightarrow> Inl (e, df) | Inr stamps \<Rightarrow>
      case setcol df ''submitted_datetime'' stamps of Inl e \<Rightarrow> Inl (e, df) | Inr df1 \<Rightarrow>
      case coerce_columns bool_columns df1 of Inl x \<Rightarrow> Inl x | Inr df2 \<Rightarrow>
      case getcol df2 ''issues'' of Inl e \<Rightarrow> Inl (e, df2) | Inr issues \<Rightarrow>
      case str_split issues of Inl e \<Rightarrow> Inl (e, df2) | Inr tag_lists \<Rightarrow>
      case setcol df2 ''issues_list'' tag_lists of Inl e \<Rightarrow> Inl (e, df2) | Inr df3 \<Rightarrow>
      Inr df3)"

text \<open>The body of the \<open>try\<close> block, lines 21 to 68: the table, or the exception
  together with the table bound to \<open>df\<close> by then, if any.\<close>

definition load_body :: "env \<Rightarrow> (error \<times> frame option) + frame" where
  "load_body env =
     (case fetch env of Inl e \<Rightarrow> Inl (e, None) | Inr data \<Rightarrow>
      case normalise (to_datetime env) (DataFrame data) of
        Inl (e, df) \<Rightarrow> Inl (e, Some df)
      | Inr df \<Rightarrow> Inr df)"

text \<open>\<open>str(e)\<close>; a \<open>KeyError\<close> prints its key in quotes.\<close>

fun error_str :: "error \<Rightarrow> string" where
  "error_str (KeyError k) = [CHR 0x27] @ k @ [CHR 0x27]"
| "error_str (AttributeError m) = m"
| "error_str (TypeError m) = m"
| "error_str (IndexError m) = m"
| "error_str (ValueError m) = m"
| "error_str (AmbiguousColumn m) = m"
| "error_str (External m) = m"

fun join :: "string \<Rightarrow> string list \<Rightarrow> string" where
  "join sep [] = []"
| "join sep [x] = x"
| "join sep (x # y # ys) = x @ sep @ join sep (y # ys)"

text \<open>Lines 70 to 73, the handler: two calls of \<open>st.error\<close>, then the empty
  table.\<close>

definition handler :: "error \<Rightarrow> frame option \<Rightarrow> string list" where
  "handler e d =
     [''Error loading data: '' @ error_str e,
      ''Available columns: '' @
        join '', '' (case d of Some df \<Rightarrow> columns df | None \<Rightarrow> [''No DataFrame available''])]"

text \<open>\<open>load_data\<close>: the error messages shown, and the table returned.\<close>

definition load_data :: "env \<Rightarrow> string list \<times> frame" where
  "load_data env =
     (case load_body env of
        Inr df \<Rightarrow> ([], df)
      | Inl (e, d) \<Rightarrow> (handler e d, empty_frame))"

section \<open>The view builder\<close>

subsection \<open>Filtering\<close>

definition notna :: "cell \<Rightarrow> bool" where
  "notna c = (c \<noteq> Null)"

definition dropna :: "cell list \<Rightarrow> cell list" where
  "dropna cs = filter notna cs"

text \<open>\<open>series.dt.date\<close>: the calendar day of each timestamp, and no day where the
  timestamp is missing. The accessor exists on a column of timestamps only.\<close>

definition datetimelike :: "cell \<Rightarrow> bool" where
  "datetimelike c = (case c of Time t \<Rightarrow> True | Null \<Rightarrow> True | _ \<Rightarrow> False)"

definition dt_date :: "cell list \<Rightarrow> error + int option list" where
  "dt_date cs =
     (if list_all datetimelike cs
      then Inr (map (\<lambda>c. case c of Time t \<Rightarrow> Some (day_of t) | _ \<Rightarrow> None) cs)
      else Inl (AttributeError ''Can only use .dt accessor with datetimelike values''))"

definition tuple_get :: "'a list \<Rightarrow> nat \<Rightarrow> error + 'a" where
  "tuple_get xs i =
     (if i < length xs then Inr (xs ! i) else Inl (IndexError ''tuple index out of range''))"

text \<open>The comparisons of a column of days with one day; a missing day compares
  false.\<close>

definition ge_date :: "int option list \<Rightarrow> int \<Rightarrow> bool list" where
  "ge_date ds d = map (\<lambda>x. case x of Some v \<Rightarrow> d \<le> v | None \<Rightarrow> False) ds"

definition le_date :: "int option list \<Rightarrow> int \<Rightarrow> bool list" where
  "le_date ds d = map (\<lambda>x. case x of Some v \<Rightarrow> v \<le> d | None \<Rightarrow> False) ds"

definition mask_and :: "bool list \<Rightarrow> bool list \<Rightarrow> bool list" where
  "mask_and a b = map (\<lambda>(x, y). x \<and> y) (zip a b)"

definition isin :: "cell list \<Rightarrow> cell list \<Rightarrow> bool list" where
  "isin cs vals = map (\<lambda>c. c \<in> set vals) cs"

text \<open>Lines 98 to 101. \<open>date_range\<close> is the tuple of the date picker,
  \<open>selected_dealers\<close> the list of the dealer picker; an empty list is false in the
  \<open>if\<close>.\<close>

definition build_mask :: "frame \<Rightarrow> int list \<Rightarrow> cell list \<Rightarrow> error + bool list" where
  "build_mask df date_range selected_dealers =
     (case getcol df ''submitted_datetime'' of Inl e \<Rightarrow> Inl e | Inr stamps \<Rightarrow>
      case dt_date stamps of Inl e \<Rightarrow> Inl e | Inr days \<Rightarrow>
      case tuple_get date_range 0 of Inl e \<Rightarrow> Inl e | Inr start \<Rightarrow>
      case getcol df ''submitted_datetime'' of Inl e \<Rightarrow> Inl e | Inr stamps' \<Rightarrow>
      case dt_date stamps' of Inl e \<Rightarrow> Inl e | Inr days' \<Rightarrow>
      case tuple_get date_range 1 of Inl e \<Rightarrow> Inl e | Inr stop \<Rightarrow>
      (let keep = mask_and (ge_date days start) (le_date days' stop) in
       if selected_dealers \<noteq> []
       then (case getcol df ''dealer'' of Inl e \<Rightarrow> Inl e | Inr dealers \<Rightarrow>
             Inr (mask_and keep (isin dealers selected_dealers)))
       else Inr keep))"

text \<open>Line 103, \<open>df[mask]\<close>: a new table of the rows whose mask is true.\<close>

definition apply_mask :: "frame \<Rightarrow> bool list \<Rightarrow> frame" where
  "apply_mask df keep = df\<lparr>rows := map fst (filter snd (zip (rows df) keep))\<rparr>"

definition apply_filters :: "frame \<Rightarrow> int list \<Rightarrow> cell list \<Rightarrow> error + frame" where
  "apply_filters df date_range selected_dealers =
     (case build_mask df date_range selected_dealers of
        Inl e \<Rightarrow> Inl e
      | Inr keep \<Rightarrow> Inr (apply_mask df keep))"

subsection \<open>Summary counts and dealer summary\<close>

text \<open>\<open>series.nunique()\<close>: the number of distinct values that are not missing.\<close>

definition nunique :: "cell list \<Rightarrow> nat" where
  "nunique cs = length (unique (dropna cs))"

text \<open>\<open>groupby\<close> orders the groups by their key: numbers first, then text in the
  order of its characters.\<close>

fun group_key :: "cell \<Rightarrow> nat \<times> rat \<times> string" where
  "group_key (Num q) = (0, q, [])"
| "group_key (Str s) = (1, 0, s)"
| "group_key c = (2, 0, [])"

text \<open>The aggregation \<open>'first'\<close>: the first value of the group that is not
  missing.\<close>

definition first_valid :: "cell list \<Rightarrow> cell" where
  "first_valid cs = (case dropna cs of [] \<Rightarrow> Null | c # _ \<Rightarrow> c)"

text \<open>Lines 125 to 128, \<open>groupby('dealer').agg({...}).reset_index()\<close>: one row per
  dealer that is not missing, with the number of timestamps of the group that are not
  missing (\<open>'count'\<close>) and the first dealer code.\<close>

definition groupby_agg :: "frame \<Rightarrow> error + frame" where
  "groupby_agg df =
     (case getcol df ''dealer'' of Inl e \<Rightarrow> Inl e | Inr dealers \<Rightarrow>
      case getcol df ''submitted_datetime'' of Inl e \<Rightarrow> Inl e | Inr stamps \<Rightarrow>
      case getcol df ''dealer_code'' of Inl e \<Rightarrow> Inl e | Inr codes \<Rightarrow>
      Inr \<lparr>columns = [''dealer'', ''submitted_datetime'', ''dealer_code''],
           rows =
             map (\<lambda>k. [k,
                        Num (of_nat (length (dropna (map snd (filter (\<lambda>(d, t). d = k) (zip dealers stamps)))))),
                        first_valid (map snd (filter (\<lambda>(d, c). d = k) (zip dealers codes)))])
               (sort_key group_key (unique (dropna dealers)))\<rparr>)"

definition set_columns :: "frame \<Rightarrow> string list \<Rightarrow> frame" where
  "set_columns df names = df\<lparr>columns := names\<rparr>"

fun is_num :: "cell \<Rightarrow> bool" where
  "is_num (Num q) = True"
| "is_num c = False"

fun num_of :: "cell \<Rightarrow> rat" where
  "num_of (Num q) = q"
| "num_of c = 0"

text \<open>\<open>sort_values(c, ascending=False)\<close> on a column of numbers: a new table, the
  rows in descending order of the column. The library reverses the rows, sorts them in
  ascending order and reverses the result; the model sorts by insertion, which keeps
  rows with the same number in their order.\<close>

definition sort_values_desc :: "frame \<Rightarrow> string \<Rightarrow> error + frame" where
  "sort_values_desc df c =
     (case positions c (columns df) of
        [] \<Rightarrow> Inl (KeyError c)
      | [i] \<Rightarrow>
          if list_all (\<lambda>r. is_num (cell_at r i)) (rows df)
          then Inr (df\<lparr>rows := rev (sort_key (\<lambda>r. num_of (cell_at r i)) (rev (rows df)))\<rparr>)
          else Inl (TypeError ''not a column of numbers'')
      | _ \<Rightarrow> Inl (AmbiguousColumn c))"

definition summary_columns :: "string list" where
  "summary_columns = [''Dealer Name'', ''Number of Visits'', ''Dealer Code'']"

text \<open>Lines 125 to 131 as a function of the filtered table.\<close>

definition dealer_summary :: "frame \<Rightarrow> error + frame" where
  "dealer_summary filtered_df =
     (case groupby_agg filtered_df of Inl e \<Rightarrow> Inl e | Inr agg \<Rightarrow>
      sort_values_desc (set_columns agg summary_columns) ''Number of Visits'')"

subsection \<open>Issue frequency\<close>

text \<open>Lines 148 to 150, the loop \<open>issues_data.extend(issues)\<close>: a list of tags is
  appended; a string is iterable too and appends its characters; any other cell is
  not iterable.\<close>

fun extend_all :: "cell list \<Rightarrow> string list \<Rightarrow> error + string list" where
  "extend_all [] issues_data = Inr issues_data"
| "extend_all (Tags ts # cs) issues_data = extend_all cs (issues_data @ ts)"
| "extend_all (Str s # cs) issues_data = extend_all cs (issues_data @ map (\<lambda>ch. [ch]) s)"
| "extend_all (c # cs) issues_data = Inl (TypeError ''object is not iterable'')"

text \<open>Line 152, \<open>pd.Series(issues_data).value_counts()\<close>: each distinct value with
  the number of its occurrences, in descending order of that number.\<close>

definition value_counts :: "string list \<Rightarrow> (string \<times> nat) list" where
  "value_counts xs =
     rev (sort_key snd (rev (map (\<lambda>t. (t, count_list xs t)) (unique xs))))"

definition issues_counts :: "frame \<Rightarrow> error + (string \<times> nat) list" where
  "issues_counts filtered_df =
     (case getcol filtered_df ''issues_list'' of Inl e \<Rightarrow> Inl e | Inr col \<Rightarrow>
      case extend_all (dropna col) [] of Inl e \<Rightarrow> Inl e | Inr issues_data \<Rightarrow>
      Inr (value_counts issues_data))"

subsection \<open>Yes-percentages\<close>

text \<open>\<open>series.mean()\<close> skips the missing values and divides the sum of the others
  (true is 1, false is 0) by their number; with no value left the result is NaN, here
  \<open>None\<close>. The arithmetic is exact: the rounding of the floating-point division is not
  modelled.\<close>

fun cell_sum :: "cell list \<Rightarrow> error + rat" where
  "cell_sum [] = Inr 0"
| "cell_sum (Bool b # cs) =
     (case cell_sum cs of Inl e \<Rightarrow> Inl e | Inr s \<Rightarrow> Inr ((if b then 1 else 0) + s))"
| "cell_sum (Num q # cs) =
     (case cell_sum cs of Inl e \<Rightarrow> Inl e | Inr s \<Rightarrow> Inr (q + s))"
| "cell_sum (c # cs) = Inl (TypeError ''could not convert to numeric'')"

definition mean :: "cell list \<Rightarrow> error + rat option" where
  "mean cs =
     (case cell_sum (dropna cs) of
        Inl e \<Rightarrow> Inl e
      | Inr s \<Rightarrow>
          Inr (if dropna cs = [] then None else Some (s / of_nat (length (dropna cs)))))"

text \<open>Lines 166 to 169: \<open>filtered_df[c].mean() * 100\<close>.\<close>

definition yes_percentage :: "frame \<Rightarrow> string \<Rightarrow> error + rat option" where
  "yes_percentage filtered_df c =
     (case getcol filtered_df c of Inl e \<Rightarrow> Inl e | Inr cs \<Rightarrow>
      case mean cs of Inl e \<Rightarrow> Inl e | Inr m \<Rightarrow>
      Inr (map_option (\<lambda>x. x * 100) m))"

fun yes_percentages :: "frame \<Rightarrow> string list \<Rightarrow> error + rat option list" where
  "yes_percentages filtered_df [] = Inr []"
| "yes_percentages filtered_df (c # cs) =
     (case yes_percentage filtered_df c of Inl e \<Rightarrow> Inl e | Inr p \<Rightarrow>
      case yes_percentages filtered_df cs of Inl e \<Rightarrow> Inl e | Inr ps \<Rightarrow>
      Inr (p # ps))"

definition metric_cell :: "rat option \<Rightarrow> cell" where
  "metric_cell p = (case p of Some x \<Rightarrow> Num x | None \<Rightarrow> Null)"

text \<open>Lines 163 to 171, the table of the chart.\<close>

definition metrics_frame :: "rat option list \<Rightarrow> frame" where
  "metrics_frame ps =
     \<lparr>columns = [''Metric'', ''Yes''],
      rows = map (\<lambda>(m, p). [Str m, metric_cell p])
               (zip [''Showroom'', ''Swift'', ''Lending'', ''Buy Now''] ps)\<rparr>"

subsection \<open>The render pass\<close>

text \<open>
  Tables are objects: a variable holds a reference, and an assignment to an attribute
  changes the object for every holder of a reference. The objects live in a store, a
  reference is a position in it; \<open>new\<close> puts a table the library has built at a fresh
  position.
\<close>

type_synonym heap = "frame list"

definition new :: "frame \<Rightarrow> heap \<Rightarrow> nat \<times> heap" where
  "new f h = (length h, h @ [f])"

definition deref :: "heap \<Rightarrow> nat \<Rightarrow> frame" where
  "deref h a = (if a < length h then h ! a else empty_frame)"

text \<open>Line 130, \<open>dealer_summary.columns = [...]\<close>: the object is changed in
  place.\<close>

definition assign_columns :: "nat \<Rightarrow> string list \<Rightarrow> heap \<Rightarrow> heap" where
  "assign_columns a names h = h[a := set_columns (deref h a) names]"

text \<open>What a render pass computes: the filtered table and what goes to the widgets.\<close>

record view =
  filtered_set :: frame
  total_visits :: nat
  unique_dealers :: nat
  dealer_table :: frame
  issues_chart :: "(string \<times> nat) list"
  metrics_chart :: frame

text \<open>Lines 98 to 171 of \<open>main\<close>; \<open>df\<close> is the reference to the loaded table.\<close>

definition main_view :: "nat \<Rightarrow> int list \<Rightarrow> cell list \<Rightarrow> heap \<Rightarrow> error + (view \<times> heap)" where
  "main_view df date_range selected_dealers h0 =
     (case build_mask (deref h0 df) date_range selected_dealers of Inl e \<Rightarrow> Inl e | Inr keep \<Rightarrow>
      case new (apply_mask (deref h0 df) keep) h0 of (filtered_df, h1) \<Rightarrow>
      case getcol (deref h1 filtered_df) ''dealer'' of Inl e \<Rightarrow> Inl e | Inr dealers \<Rightarrow>
      case groupby_agg (deref h1 filtered_df) of Inl e \<Rightarrow> Inl e | Inr agg \<Rightarrow>
      case new agg h1 of (summary, h2) \<Rightarrow>
      case sort_values_desc (deref (assign_columns summary summary_columns h2) summary)
             ''Number of Visits'' of Inl e \<Rightarrow> Inl e | Inr sorted_rows \<Rightarrow>
      case new sorted_rows (assign_columns summary summary_columns h2) of (summary', h3) \<Rightarrow>
      case issues_counts (deref h3 filtered_df) of Inl e \<Rightarrow> Inl e | Inr counts \<Rightarrow>
      case yes_percentages (deref h3 filtered_df) bool_columns of Inl e \<Rightarrow> Inl e | Inr ps \<Rightarrow>
      case new (metrics_frame ps) h3 of (metrics_df, h4) \<Rightarrow>
      Inr (\<lparr>filtered_set = deref h4 filtered_df,
            total_visits = length (rows (deref h4 filtered_df)),
            unique_dealers = nunique dealers,
            dealer_table = deref h4 summary',
            issues_chart = counts,
            metrics_chart = deref h4 metrics_df\<rparr>, h4))"

text \<open>The two pickers of the sidebar, lines 86 to 95: each is given the column it is
  built from and returns what the user chose, or raises.\<close>

record widgets =
  date_input :: "cell list \<Rightarrow> error + int list"
  multiselect :: "cell list \<Rightarrow> error + cell list"

text \<open>Lines 86 to 171, on the table that \<open>load_data\<close> returned.\<close>

definition render :: "widgets \<Rightarrow> frame \<Rightarrow> error + view" where
  "render ui loaded =
     (case new loaded [] of (df, h) \<Rightarrow>
      case getcol (deref h df) ''submitted_datetime'' of Inl e \<Rightarrow> Inl e | Inr stamps \<Rightarrow>
      case date_input ui stamps of Inl e \<Rightarrow> Inl e | Inr date_range \<Rightarrow>
      case getcol (deref h df) ''dealer'' of Inl e \<Rightarrow> Inl e | Inr dealers \<Rightarrow>
      case multiselect ui dealers of Inl e \<Rightarrow> Inl e | Inr selected_dealers \<Rightarrow>
      case main_view df date_range selected_dealers h of Inl e \<Rightarrow> Inl e | Inr (v, h') \<Rightarrow>
      Inr v)"

text \<open>\<open>main\<close>: the messages of the loader, and the view or the exception that ends
  the pass.\<close>

definition main :: "env \<Rightarrow> widgets \<Rightarrow> string list \<times> (error + view)" where
  "main env ui = (case load_data env of (shown, loaded) \<Rightarrow> (shown, render ui loaded))"

section \<open>Vocabulary of the properties\<close>

text \<open>The cell of a row under a label that names exactly one column.\<close>

definition field :: "frame \<Rightarrow> string \<Rightarrow> cell list \<Rightarrow> cell" where
  "field df c r = (case positions c (columns df) of [i] \<Rightarrow> cell_at r i | _ \<Rightarrow> Null)"

text \<open>A timestamp whose calendar day lies in the closed interval from \<open>start\<close> to
  \<open>stop\<close>; a missing timestamp lies in no interval.\<close>

definition in_date_range :: "int \<Rightarrow> int \<Rightarrow> cell \<Rightarrow> bool" where
  "in_date_range start stop c =
     (case c of Time t \<Rightarrow> start \<le> day_of t \<and> day_of t \<le> stop | _ \<Rightarrow> False)"

text \<open>The rows the two filters select: the day in the interval, and the dealer among
  the selected ones unless none is selected.\<close>

definition matches_filters :: "frame \<Rightarrow> int \<Rightarrow> int \<Rightarrow> cell list \<Rightarrow> cell list \<Rightarrow> bool" where
  "matches_filters df start stop selected_dealers r =
     (in_date_range start stop (field df ''submitted_datetime'' r)
      \<and> (selected_dealers = [] \<or> field df ''dealer'' r \<in> set selected_dealers))"

text \<open>The cells a Yes/No column holds after the loader: a boolean or the missing
  value.\<close>

definition coerced :: "cell \<Rightarrow> bool" where
  "coerced c = (case c of Bool b \<Rightarrow> True | Null \<Rightarrow> True | _ \<Rightarrow> False)"

text \<open>The cells of \<open>issues_list\<close> after the loader, a list of tags or the missing
  value, and the tags such a cell contributes.\<close>

definition tag_cell :: "cell \<Rightarrow> bool" where
  "tag_cell c = (case c of Tags ts \<Rightarrow> True | Null \<Rightarrow> True | _ \<Rightarrow> False)"

fun tags_of :: "cell \<Rightarrow> string list" where
  "tags_of (Tags ts) = ts"
| "tags_of c = []"

text \<open>The position of the first occurrence of a value in a column.\<close>

definition first_index :: "'a list \<Rightarrow> 'a \<Rightarrow> nat" where
  "first_index xs x = length (takeWhile (\<lambda>y. y \<noteq> x) xs)"

text \<open>Rows of a dealer summary with the same number of visits stand in the order in
  which their dealers are first met in the dealer column.\<close>

definition ties_in_encounter_order :: "cell list \<Rightarrow> cell list list \<Rightarrow> bool" where
  "ties_in_encounter_order dealers rs =
     sorted_wrt (\<lambda>r s. cell_at r 1 = cell_at s 1 \<longrightarrow>
                   first_index dealers (cell_at r 0) < first_index dealers (cell_at s 0)) rs"

subsection \<open>Example data\<close>

text \<open>One row of answers in the four Yes/No columns.\<close>

definition example_answers :: frame where
  "example_answers =
     \<lparr>columns = [''showroom'', ''swift'', ''lending'', ''buy_now''],
      rows = [[Str ''Yes'', Str ''No'', Str ''yes'', Num 1]]\<rparr>"

text \<open>A run in which the credential file is absent, the secrets work, and the sheet has
  no column \<open>submitted_datetime\<close>.\<close>

definition failing_env :: env where
  "failing_env =
     \<lparr>from_service_account_file = Some (External ''No such file''),
      from_service_account_info = None,
      authorize = None,
      open_spreadsheet = None,
      worksheet = None,
      get_all_records = Inr [[(''dealer'', Str ''D''), (''buy now'', Str ''Yes'')]],
      to_datetime = (\<lambda>cs. Inr cs)\<rparr>"

text \<open>Three visits as the loader returns them: two dealers, the days 2024-01-01,
  2024-01-02 and 2024-01-05 as day numbers, the four flags, and the issues.\<close>

definition example_visits :: frame where
  "example_visits =
     \<lparr>columns = [''submitted_datetime'', ''dealer'', ''dealer_code'', ''showroom'', ''swift'',
                 ''lending'', ''buy_now'', ''issues'', ''issues_list''],
      rows =
        [[Time (Timestamp 738886 0), Str ''Dealer A'', Str ''A1'', Bool True, Bool False, Null,
          Bool True, Str ''noise, pricing'', Tags [''noise'', ''pricing'']],
         [Time (Timestamp 738887 0), Str ''Dealer B'', Str ''B1'', Bool False, Bool False, Null,
          Null, Str [], Tags [[]]],
         [Time (Timestamp 738890 0), Str ''Dealer A'', Str ''A1'', Bool True, Bool True, Null,
          Bool False, Str ''noise'', Tags [''noise'']]]\<rparr>"

definition example_filtered :: frame where
  "example_filtered = example_visits\<lparr>rows := take 2 (rows example_visits)\<rparr>"

text \<open>What the render pass shows for the first two days of the example.\<close>

definition example_view :: view where
  "example_view =
     \<lparr>filtered_set = example_filtered,
      total_visits = 2,
      unique_dealers = 2,
      dealer_table =
        \<lparr>columns = summary_columns,
         rows = [[Str ''Dealer A'', Num 1, Str ''A1''], [Str ''Dealer B'', Num 1, Str ''B1'']]\<rparr>,
      issues_chart = [(''noise'', 1), (''pricing'', 1), ([], 1)],
      metrics_chart =
        \<lparr>columns = [''Metric'', ''Yes''],
         rows = [[Str ''Showroom'', Num 50], [Str ''Swift'', Num 0], [Str ''Lending'', Null],
                 [Str ''Buy Now'', Num 100]]\<rparr>\<rparr>"

text \<open>Two visits, the dealer that comes later in the alphabet first.\<close>

definition two_visits :: frame where
  "two_visits =
     \<lparr>columns = [''submitted_datetime'', ''dealer'', ''dealer_code''],
      rows = [[Time (Timestamp 738886 0), Str ''Dealer B'', Str ''B1''],
              [Time (Timestamp 738887 0), Str ''Dealer A'', Str ''A1'']]\<rparr>"

section \<open>Properties of the loader\<close>

subsection \<open>Column names\<close>

lemma rename_label_idem: "rename_label (rename_label c) = rename_label c"
  by (auto simp: rename_label_def rename_table_def)

lemma rename_label_not_raw: "rename_label c \<notin> set (map fst rename_table)"
  by (auto simp: rename_label_def rename_table_def)

lemma rename_label_other: "c \<notin> set (map fst rename_table) \<Longrightarrow> rename_label c = c"
  by (auto simp: rename_label_def rename_table_def)

subsection \<open>Splitting and joining\<close>





subsection \<open>Reading and writing columns\<close>

lemma filter_single: "filter P xs = [i] \<Longrightarrow> P i \<and> i \<in> set xs"
proof -
  assume a: "filter P xs = [i]"
  have "i \<in> set (filter P xs)" by (simp add: a)
  then show ?thesis by simp
qed

lemma positions_single: "positions c cols = [i] \<Longrightarrow> i < length cols \<and> cols ! i = c"
  unfolding positions_def by (drule filter_single) simp

lemma getcol_Inr: "getcol df c = Inr cs \<Longrightarrow> \<exists>i. positions c (columns df) = [i] \<and> cs = map (\<lambda>r. cell_at r i) (rows df)"
  by (auto simp: getcol_def split: list.splits)

lemma getcol_length: "getcol df c = Inr cs \<Longrightarrow> length cs = length (rows df)"
  by (auto dest: getcol_Inr)

lemma cell_at_set_cell: "cell_at (set_cell r i v) j = (if j = i then v else cell_at r j)"
  by (auto simp: cell_at_def set_cell_def nth_append nth_Cons split: nat.splits)

lemma map_zip_fst: "length xs = length ys \<Longrightarrow> map (\<lambda>(x, y). f x) (zip xs ys) = map f xs"
  by (induction xs ys rule: list_induct2) auto

lemma map_zip_snd: "length xs = length ys \<Longrightarrow> map (\<lambda>(x, y). g y) (zip xs ys) = map g ys"
  by (induction xs ys rule: list_induct2) auto

lemma getcol_setcol:
  assumes g: "getcol df c = Inr cs" and l: "length vs = length (rows df)"
  shows "\<exists>df'. setcol df c vs = Inr df' \<and> columns df' = columns df
           \<and> (\<forall>c'. getcol df' c' = (if c' = c then Inr vs else getcol df c'))"
proof -
  from g obtain i where i: "positions c (columns df) = [i]"
    by (auto dest: getcol_Inr)
  let ?df' = "df\<lparr>rows := map (\<lambda>(r, v). set_cell r i v) (zip (rows df) vs)\<rparr>"
  have s: "setcol df c vs = Inr ?df'"
    by (simp add: setcol_def i l)
  have len: "length (rows df) = length vs" using l by simp
  have same: "getcol ?df' c = Inr vs"
    using map_zip_snd [OF len, of "\<lambda>v. v"]
    by (simp add: getcol_def i o_def case_prod_unfold cell_at_set_cell)
  have other: "getcol ?df' c' = getcol df c'" if "c' \<noteq> c" for c'
  proof -
    have "cell_at (set_cell r i v) j = cell_at r j" if "positions c' (columns df) = [j]" for j r v
    proof -
      have "columns df ! j = c'" using positions_single [OF that] by simp
      moreover have "columns df ! i = c" using positions_single [OF i] by simp
      ultimately have "j \<noteq> i" using \<open>c' \<noteq> c\<close> by auto
      then show ?thesis by (simp add: cell_at_set_cell)
    qed
    then show ?thesis
      using map_zip_fst [OF len]
      by (auto simp: getcol_def o_def case_prod_unfold split: list.splits)
  qed
  show ?thesis using s same other by (intro exI [of _ ?df']) auto
qed

lemma coerce_columns_correct:
  assumes "distinct cols" and "\<forall>c \<in> set cols. \<exists>cs. getcol df c = Inr cs"
  shows "\<exists>df'. coerce_columns cols df = Inr df' \<and> columns df' = columns df
           \<and> (\<forall>c cs. getcol df c = Inr cs \<longrightarrow>
                 getcol df' c = Inr (if c \<in> set cols then map yes_no cs else cs))"
  using assms
proof (induction cols arbitrary: df)
  case Nil
  then show ?case by simp
next
  case (Cons x xs)
  from Cons.prems obtain xcs where x: "getcol df x = Inr xcs" by auto
  have l: "length (map yes_no xcs) = length (rows df)"
    using getcol_length [OF x] by simp
  from getcol_setcol [OF x l] obtain df1 where
    s: "setcol df x (map yes_no xcs) = Inr df1" and
    c1: "columns df1 = columns df" and
    g1: "\<And>c'. getcol df1 c' = (if c' = x then Inr (map yes_no xcs) else getcol df c')"
    by blast
  have "\<forall>c \<in> set xs. \<exists>cs. getcol df1 c = Inr cs"
    using Cons.prems g1 by auto
  moreover have "distinct xs" using Cons.prems by simp
  ultimately obtain df' where
    r: "coerce_columns xs df1 = Inr df'" and
    c': "columns df' = columns df1" and
    g': "\<And>c cs. getcol df1 c = Inr cs \<Longrightarrow> getcol df' c = Inr (if c \<in> set xs then map yes_no cs else cs)"
    using Cons.IH [of df1] by blast
  have "coerce_columns (x # xs) df = Inr df'"
    using x s r by simp
  moreover have "columns df' = columns df" using c' c1 by simp
  moreover have "getcol df' c = Inr (if c \<in> set (x # xs) then map yes_no cs else cs)"
    if "getcol df c = Inr cs" for c cs
  proof (cases "c = x")
    case True
    then have "cs = xcs" using that x by simp
    moreover have "x \<notin> set xs" using Cons.prems by simp
    ultimately show ?thesis using g' [of x "map yes_no xcs"] g1 [of x] True by simp
  next
    case False
    then have "getcol df1 c = Inr cs" using g1 [of c] that by simp
    then show ?thesis using g' [of c cs] False by simp
  qed
  ultimately show ?case by blast
qed

subsection \<open>The outcomes of the loading sequence\<close>

lemma load_data_cases:
  "(\<exists>df. load_body env = Inr df \<and> load_data env = ([], df))
   \<or> (\<exists>e d. load_body env = Inl (e, d) \<and> load_data env = (handler e d, empty_frame))"
  by (cases "load_body env") (auto simp: load_data_def)

lemma credentials_raise:
  "from_service_account_file env = Some e' \<Longrightarrow> from_service_account_info env = Some e \<Longrightarrow>
   load_body env = Inl (e, None)"
  by (simp add: load_body_def fetch_def credentials_def)

lemma fetch_raise: "fetch env = Inl e \<Longrightarrow> load_body env = Inl (e, None)"
  by (simp add: load_body_def)

lemma get_all_records_raise:
  "credentials env = None \<Longrightarrow> authorize env = None \<Longrightarrow> open_spreadsheet env = None \<Longrightarrow>
   worksheet env = None \<Longrightarrow> get_all_records env = Inl e \<Longrightarrow> load_body env = Inl (e, None)"
  by (simp add: load_body_def fetch_def)

lemma to_datetime_raise:
  "fetch env = Inr data \<Longrightarrow> getcol (rename (DataFrame data)) ''submitted_datetime'' = Inr raw \<Longrightarrow>
   to_datetime env raw = Inl e \<Longrightarrow> load_body env = Inl (e, Some (rename (DataFrame data)))"
  by (simp add: load_body_def normalise_def)

lemma missing_column_raise:
  "fetch env = Inr data \<Longrightarrow> getcol (rename (DataFrame data)) ''submitted_datetime'' = Inl e \<Longrightarrow>
   load_body env = Inl (e, Some (rename (DataFrame data)))"
  by (simp add: load_body_def normalise_def)

lemma failing_env_body:
  "load_body failing_env =
     Inl (KeyError ''submitted_datetime'',
          Some \<lparr>columns = [''dealer'', ''buy_now''], rows = [[Str ''D'', Str ''Yes'']]\<rparr>)"
  by (simp add: load_body_def fetch_def credentials_def failing_env_def normalise_def DataFrame_def
      unique_def rename_def rename_label_def rename_table_def getcol_def positions_def)

section \<open>Properties of the view builder\<close>

subsection \<open>Masks\<close>





lemma empty_interval:
  "stop < start \<Longrightarrow> filter (matches_filters df start stop selected_dealers) (rows df) = []"
  by (auto simp: matches_filters_def in_date_range_def filter_empty_conv split: cell.splits)

subsection \<open>The example\<close>

lemma example_columns:
  "getcol example_visits ''dealer'' = Inr [Str ''Dealer A'', Str ''Dealer B'', Str ''Dealer A'']"
  "getcol example_visits ''submitted_datetime'' =
     Inr [Time (Timestamp 738886 0), Time (Timestamp 738887 0), Time (Timestamp 738890 0)]"
  "getcol example_visits ''dealer_code'' = Inr [Str ''A1'', Str ''B1'', Str ''A1'']"
  "getcol example_visits ''showroom'' = Inr [Bool True, Bool False, Bool True]"
  "getcol example_visits ''buy_now'' = Inr [Bool True, Null, Bool False]"
  "getcol example_visits ''issues_list'' = Inr [Tags [''noise'', ''pricing''], Tags [[]], Tags [''noise'']]"
  by (simp_all add: example_visits_def getcol_def positions_def cell_at_def)

subsection \<open>Distinct values and descending order\<close>

lemma unique_set: "set (unique xs) = set xs"
  by (simp add: unique_def)

lemma unique_distinct: "distinct (unique xs)"
  by (simp add: unique_def)

lemma desc_sort_mset: "mset (rev (sort_key f (rev xs))) = mset xs"
  by simp

lemma desc_sort_sorted: "sorted_wrt (\<lambda>a b. f b \<le> f a) (rev (sort_key f (rev xs)))"
proof -
  have "sorted (map f (sort_key f (rev xs)))" by (rule sorted_sort_key)
  then have "sorted_wrt (\<lambda>a b. f a \<le> f b) (sort_key f (rev xs))"
    by (simp add: sorted_wrt_map)
  then show ?thesis by (simp add: sorted_wrt_rev)
qed

lemma dropna_id: "Null \<notin> set cs \<Longrightarrow> dropna cs = cs"
  by (induction cs) (auto simp: dropna_def notna_def)

section \<open>The claims\<close>

text \<open>
  Claim C8. Renaming the columns is total and idempotent: \<open>rename\<close> is a function on
  every table, applying it twice gives what applying it once gives, the labels of the
  result are the renamed or unchanged labels of the input in the same order, the rows
  are untouched, no label of the result is one of the five raw names, the five raw names
  go to their five internal names, and every other label stays as it is.
\<close>

theorem rename_total_idempotent:
  "rename (rename df) = rename df
   \<and> columns (rename df) = map rename_label (columns df)
   \<and> rows (rename df) = rows df
   \<and> set (columns (rename df)) \<inter> set (map fst rename_table) = {}
   \<and> map rename_label [''buy now'', ''dealer code'', ''Hatla2ee link'', ''dubizzle link'', ''showroom capacity'']
       = [''buy_now'', ''dealer_code'', ''hatla2ee_link'', ''dubizzle_link'', ''showroom_capacity'']
   \<and> length rename_table = 5
   \<and> (c \<notin> set (map fst rename_table) \<longrightarrow> rename_label c = c)"
proof -
  have "rename (rename df) = rename df"
    by (simp add: rename_def rename_label_idem)
  moreover have "set (columns (rename df)) \<inter> set (map fst rename_table) = {}"
    using rename_label_not_raw by (auto simp: rename_def)
  moreover have "map rename_label [''buy now'', ''dealer code'', ''Hatla2ee link'', ''dubizzle link'', ''showroom capacity'']
       = [''buy_now'', ''dealer_code'', ''hatla2ee_link'', ''dubizzle_link'', ''showroom_capacity'']"
    by (simp add: rename_label_def rename_table_def)
  moreover have "length rename_table = 5" by (simp add: rename_table_def)
  ultimately show ?thesis
    using rename_label_other by (simp add: rename_def)
qed

theorem rename_total_idempotent_witness:
  "rename (rename \<lparr>columns = [''dealer'', ''buy now''], rows = [[Str ''D'', Str ''Yes'']]\<rparr>)
     = \<lparr>columns = [''dealer'', ''buy_now''], rows = [[Str ''D'', Str ''Yes'']]\<rparr>
   \<and> ''dealer'' \<notin> set (map fst rename_table) \<and> rename_label ''dealer'' = ''dealer''"
  using rename_total_idempotent [of "\<lparr>columns = [''dealer'', ''buy now''], rows = [[Str ''D'', Str ''Yes'']]\<rparr>" "''dealer''"]
  by (simp add: rename_def rename_label_def rename_table_def)

text \<open>
  Claim C5. The coercion of a Yes/No cell has three outcomes: the string \<open>Yes\<close> becomes
  true, the string \<open>No\<close> becomes false, every other cell becomes the missing value; and
  the loop over the four columns applies this coercion to every cell of each of them,
  whenever the table has the four columns.
\<close>

theorem yes_no_trichotomy:
  "yes_no (Str ''Yes'') = Bool True
   \<and> yes_no (Str ''No'') = Bool False
   \<and> (c \<noteq> Str ''Yes'' \<and> c \<noteq> Str ''No'' \<longrightarrow> yes_no c = Null)
   \<and> ((\<forall>col \<in> set bool_columns. \<exists>cs. getcol df col = Inr cs) \<longrightarrow>
        (\<exists>df'. coerce_columns bool_columns df = Inr df'
           \<and> (\<forall>col \<in> set bool_columns. \<forall>cs. getcol df col = Inr cs \<longrightarrow>
                 getcol df' col = Inr (map yes_no cs))))"
proof -
  have d: "distinct bool_columns" by (simp add: bool_columns_def)
  have "(\<forall>col \<in> set bool_columns. \<exists>cs. getcol df col = Inr cs) \<longrightarrow>
        (\<exists>df'. coerce_columns bool_columns df = Inr df'
           \<and> (\<forall>col \<in> set bool_columns. \<forall>cs. getcol df col = Inr cs \<longrightarrow>
                 getcol df' col = Inr (map yes_no cs)))"
  proof
    assume a: "\<forall>col \<in> set bool_columns. \<exists>cs. getcol df col = Inr cs"
    from coerce_columns_correct [OF d a] obtain df' where
      "coerce_columns bool_columns df = Inr df'"
      "\<And>c cs. getcol df c = Inr cs \<Longrightarrow>
         getcol df' c = Inr (if c \<in> set bool_columns then map yes_no cs else cs)"
      by blast
    then show "\<exists>df'. coerce_columns bool_columns df = Inr df'
           \<and> (\<forall>col \<in> set bool_columns. \<forall>cs. getcol df col = Inr cs \<longrightarrow>
                 getcol df' col = Inr (map yes_no cs))"
      by (intro exI [of _ df']) auto
  qed
  then show ?thesis by (simp add: yes_no_def)
qed

theorem yes_no_trichotomy_witness:
  "Num 1 \<noteq> Str ''Yes'' \<and> Num 1 \<noteq> Str ''No'' \<and> yes_no (Num 1) = Null
   \<and> (\<exists>df'. coerce_columns bool_columns example_answers = Inr df'
         \<and> getcol df' ''lending'' = Inr [Null] \<and> getcol df' ''showroom'' = Inr [Bool True])"
proof -
  have g: "getcol example_answers ''showroom'' = Inr [Str ''Yes'']"
      "getcol example_answers ''swift'' = Inr [Str ''No'']"
      "getcol example_answers ''lending'' = Inr [Str ''yes'']"
      "getcol example_answers ''buy_now'' = Inr [Num 1]"
    by (simp_all add: example_answers_def getcol_def positions_def cell_at_def)
  then have h: "\<forall>col \<in> set bool_columns. \<exists>cs. getcol example_answers col = Inr cs"
    by (simp add: bool_columns_def)
  have m: "''lending'' \<in> set bool_columns" "''showroom'' \<in> set bool_columns"
    by (simp_all add: bool_columns_def)
  note t = yes_no_trichotomy [of "Num 1" example_answers]
  from t have n: "yes_no (Num 1) = Null" by simp
  from t h obtain df' where
    c: "coerce_columns bool_columns example_answers = Inr df'" and
    a: "\<forall>col \<in> set bool_columns. \<forall>cs. getcol example_answers col = Inr cs \<longrightarrow>
          getcol df' col = Inr (map yes_no cs)"
    by blast
  from a m g have "getcol df' ''lending'' = Inr (map yes_no [Str ''yes''])"
      "getcol df' ''showroom'' = Inr (map yes_no [Str ''Yes''])"
    by blast+
  then have "getcol df' ''lending'' = Inr [Null]" "getcol df' ''showroom'' = Inr [Bool True]"
    using t by (simp_all add: yes_no_def)
  with c n show ?thesis by auto
qed




text \<open>
  Claim C2. Whatever exception the loading sequence raises, at whichever step, and
  whether or not a table is bound to \<open>df\<close> by then, \<open>load_data\<close> does not raise: it
  shows the two error messages and returns the empty table.
\<close>

theorem load_data_catches:
  assumes "load_body env = Inl (e, d)"
  shows "load_data env =
           ([''Error loading data: '' @ error_str e,
             ''Available columns: '' @
               join '', '' (case d of Some df \<Rightarrow> columns df | None \<Rightarrow> [''No DataFrame available''])],
            empty_frame)"
  using assms by (simp add: load_data_def handler_def)

theorem load_data_catches_witness:
  "load_body failing_env =
     Inl (KeyError ''submitted_datetime'',
          Some \<lparr>columns = [''dealer'', ''buy_now''], rows = [[Str ''D'', Str ''Yes'']]\<rparr>)
   \<and> load_data failing_env =
       ([''Error loading data: '' @ [CHR 0x27] @ ''submitted_datetime'' @ [CHR 0x27],
         ''Available columns: dealer, buy_now''], empty_frame)"
  using load_data_catches [OF failing_env_body] failing_env_body by simp

text \<open>
  Claim C1, what the code does. On the empty table, the one \<open>load_data\<close> returns after
  an error, the render pass raises \<open>KeyError\<close> for the column \<open>submitted_datetime\<close>:
  at the date picker, whatever the widgets do, and at the filter mask, whatever date
  range and dealers are selected. No count and no percentage is computed.
\<close>

theorem render_raises_on_empty:
  "render ui empty_frame = Inl (KeyError ''submitted_datetime'')
   \<and> main_view 0 date_range selected_dealers [empty_frame] = Inl (KeyError ''submitted_datetime'')"
  by (simp add: render_def main_view_def build_mask_def new_def deref_def getcol_def
      positions_def empty_frame_def)

lemma main_after_failed_load:
  "load_body env = Inl (e, d) \<Longrightarrow>
   main env ui = (handler e d, Inl (KeyError ''submitted_datetime''))"
  by (simp add: main_def load_data_def render_def new_def deref_def getcol_def
      positions_def empty_frame_def)



subsection \<open>The render pass and the store\<close>

text \<open>The render pass as a function of the loaded table: what it returns, and the four
  tables it adds to the store.\<close>

lemma main_view_closed:
  "main_view df date_range selected_dealers h =
     (case apply_filters (deref h df) date_range selected_dealers of Inl e \<Rightarrow> Inl e | Inr f \<Rightarrow>
      case getcol f ''dealer'' of Inl e \<Rightarrow> Inl e | Inr dealers \<Rightarrow>
      case groupby_agg f of Inl e \<Rightarrow> Inl e | Inr agg \<Rightarrow>
      case sort_values_desc (set_columns agg summary_columns) ''Number of Visits'' of
        Inl e \<Rightarrow> Inl e | Inr sorted_rows \<Rightarrow>
      case issues_counts f of Inl e \<Rightarrow> Inl e | Inr counts \<Rightarrow>
      case yes_percentages f bool_columns of Inl e \<Rightarrow> Inl e | Inr ps \<Rightarrow>
      Inr (\<lparr>filtered_set = f,
            total_visits = length (rows f),
            unique_dealers = nunique dealers,
            dealer_table = sorted_rows,
            issues_chart = counts,
            metrics_chart = metrics_frame ps\<rparr>,
           h @ [f, set_columns agg summary_columns, sorted_rows, metrics_frame ps]))"
  by (simp add: main_view_def apply_filters_def new_def assign_columns_def deref_def
      nth_append list_update_append split: sum.splits)

lemma main_view_heap:
  assumes r: "main_view df date_range selected_dealers h = Inr (v, h')"
  shows "\<exists>objs. h' = h @ objs
           \<and> apply_filters (deref h df) date_range selected_dealers = Inr (filtered_set v)
           \<and> (\<forall>k. deref k df = deref h df \<longrightarrow>
                  main_view df date_range selected_dealers k = Inr (v, k @ objs))"
proof -
  note r' = r [unfolded main_view_closed]
  obtain f where f: "apply_filters (deref h df) date_range selected_dealers = Inr f"
    using r' by (cases "apply_filters (deref h df) date_range selected_dealers") simp_all
  obtain dealers where g: "getcol f ''dealer'' = Inr dealers"
    using r' by (cases "getcol f ''dealer''") (simp_all add: f)
  obtain agg where a: "groupby_agg f = Inr agg"
    using r' by (cases "groupby_agg f") (simp_all add: f g)
  obtain sr where s: "sort_values_desc (set_columns agg summary_columns) ''Number of Visits'' = Inr sr"
    using r' by (cases "sort_values_desc (set_columns agg summary_columns) ''Number of Visits''")
      (simp_all add: f g a)
  obtain counts where i: "issues_counts f = Inr counts"
    using r' by (cases "issues_counts f") (simp_all add: f g a s)
  obtain ps where p: "yes_percentages f bool_columns = Inr ps"
    using r' by (cases "yes_percentages f bool_columns") (simp_all add: f g a s i)
  let ?objs = "[f, set_columns agg summary_columns, sr, metrics_frame ps]"
  from r' have v: "v = \<lparr>filtered_set = f, total_visits = length (rows f),
        unique_dealers = nunique dealers, dealer_table = sr, issues_chart = counts,
        metrics_chart = metrics_frame ps\<rparr>"
    by (simp add: f g a s i p)
  from r' have h': "h' = h @ ?objs"
    by (simp add: f g a s i p)
  have fs: "apply_filters (deref h df) date_range selected_dealers = Inr (filtered_set v)"
    by (simp add: f v)
  have again: "main_view df date_range selected_dealers k = Inr (v, k @ ?objs)"
    if "deref k df = deref h df" for k
    by (simp add: main_view_closed that f g a s i p v)
  from h' fs again show ?thesis
    by (intro exI [of _ ?objs]) simp
qed

lemma example_apply_filters:
  "apply_filters example_visits [738886, 738887] [] = Inr example_filtered"
  by (simp add: apply_filters_def build_mask_def example_visits_def getcol_def positions_def
      cell_at_def dt_date_def datetimelike_def tuple_get_def ge_date_def le_date_def
      mask_and_def apply_mask_def example_filtered_def Let_def)

lemma example_render:
  "main_view 0 [738886, 738887] [] [example_visits] =
     Inr (example_view,
          [example_visits, example_filtered, dealer_table example_view, dealer_table example_view,
           metrics_chart example_view])"
proof -
  note f = example_apply_filters
  have ef: "example_filtered =
     \<lparr>columns = [''submitted_datetime'', ''dealer'', ''dealer_code'', ''showroom'', ''swift'',
                 ''lending'', ''buy_now'', ''issues'', ''issues_list''],
      rows =
        [[Time (Timestamp 738886 0), Str ''Dealer A'', Str ''A1'', Bool True, Bool False, Null,
          Bool True, Str ''noise, pricing'', Tags [''noise'', ''pricing'']],
         [Time (Timestamp 738887 0), Str ''Dealer B'', Str ''B1'', Bool False, Bool False, Null,
          Null, Str [], Tags [[]]]]\<rparr>"
    by (simp add: example_filtered_def example_visits_def)
  have g: "getcol example_filtered ''dealer'' = Inr [Str ''Dealer A'', Str ''Dealer B'']"
    by (simp add: ef getcol_def positions_def cell_at_def)
  have a: "groupby_agg example_filtered =
      Inr \<lparr>columns = [''dealer'', ''submitted_datetime'', ''dealer_code''],
           rows = [[Str ''Dealer A'', Num 1, Str ''A1''], [Str ''Dealer B'', Num 1, Str ''B1'']]\<rparr>"
    by (simp add: ef groupby_agg_def getcol_def positions_def cell_at_def dropna_def notna_def
        unique_def first_valid_def)
  have s: "sort_values_desc
       \<lparr>columns = summary_columns,
          rows = [[Str ''Dealer A'', Num 1, Str ''A1''], [Str ''Dealer B'', Num 1, Str ''B1'']]\<rparr>
       ''Number of Visits''
      = Inr \<lparr>columns = summary_columns,
             rows = [[Str ''Dealer A'', Num 1, Str ''A1''], [Str ''Dealer B'', Num 1, Str ''B1'']]\<rparr>"
    by (simp add: sort_values_desc_def summary_columns_def positions_def cell_at_def)
  have i: "issues_counts example_filtered = Inr [(''noise'', 1), (''pricing'', 1), ([], 1)]"
    by (simp add: ef issues_counts_def getcol_def positions_def cell_at_def dropna_def notna_def
        value_counts_def unique_def)
  have p: "yes_percentages example_filtered bool_columns = Inr [Some 50, Some 0, None, Some 100]"
    by (simp add: ef bool_columns_def yes_percentage_def mean_def getcol_def positions_def
        cell_at_def dropna_def notna_def)
  have m: "metrics_frame [Some 50, Some 0, None, Some 100] = metrics_chart example_view"
    by (simp add: metrics_frame_def metric_cell_def example_view_def)
  show ?thesis
    by (simp add: main_view_closed deref_def f g a s i p m nunique_def dropna_def notna_def
        unique_def set_columns_def)
       (simp add: example_view_def ef)
qed

text \<open>
  Claim C9. A render pass that returns leaves every table that was in the store before
  it as it was, the loaded table among them; its filtered table is the value of the
  filter on the loaded table, the date range and the selected dealers alone; and a
  second pass with the same arguments, on the store the first one left, returns the same
  view, again without changing a table that was there before.
\<close>

theorem main_view_pure:
  assumes a: "df < length h"
    and r: "main_view df date_range selected_dealers h = Inr (v, h')"
  shows "take (length h) h' = h
         \<and> deref h' df = deref h df
         \<and> apply_filters (deref h df) date_range selected_dealers = Inr (filtered_set v)
         \<and> (\<exists>h''. main_view df date_range selected_dealers h' = Inr (v, h'')
                \<and> take (length h) h'' = h)"
proof -
  from main_view_heap [OF r] obtain objs where h': "h' = h @ objs"
    and f: "apply_filters (deref h df) date_range selected_dealers = Inr (filtered_set v)"
    and again: "\<And>k. deref k df = deref h df \<Longrightarrow>
                  main_view df date_range selected_dealers k = Inr (v, k @ objs)"
    by blast
  have d: "deref h' df = deref h df"
    using a by (simp add: h' deref_def nth_append)
  have m: "main_view df date_range selected_dealers h' = Inr (v, h' @ objs)"
    by (rule again [OF d])
  have t1: "take (length h) (h' @ objs) = h" by (simp add: h')
  have t2: "take (length h) h' = h" by (simp add: h')
  from m t1 have "\<exists>h''. main_view df date_range selected_dealers h' = Inr (v, h'')
                \<and> take (length h) h'' = h"
    by (intro exI [of _ "h' @ objs"] conjI) assumption+
  with t2 d f show ?thesis by (intro conjI) assumption+
qed

theorem main_view_pure_witness:
  "(0::nat) < length [example_visits]
   \<and> main_view 0 [738886, 738887] [] [example_visits] =
       Inr (example_view,
            [example_visits, example_filtered, dealer_table example_view, dealer_table example_view,
             metrics_chart example_view])
   \<and> deref [example_visits, example_filtered, dealer_table example_view, dealer_table example_view,
             metrics_chart example_view] 0 = example_visits
   \<and> apply_filters example_visits [738886, 738887] [] = Inr example_filtered
   \<and> (\<exists>h''. main_view 0 [738886, 738887] []
               [example_visits, example_filtered, dealer_table example_view,
                dealer_table example_view, metrics_chart example_view] = Inr (example_view, h'')
             \<and> take 1 h'' = [example_visits])"
proof -
  have a: "(0::nat) < length [example_visits]" by simp
  have fs: "filtered_set example_view = example_filtered" by (simp add: example_view_def)
  have d: "deref [example_visits] 0 = example_visits" by (simp add: deref_def)
  note t = main_view_pure [OF a example_render]
  from t have t2: "deref [example_visits, example_filtered, dealer_table example_view,
      dealer_table example_view, metrics_chart example_view] 0 = example_visits"
    by (simp only: d)
  from t have t3: "apply_filters example_visits [738886, 738887] [] = Inr example_filtered"
    by (simp only: d fs)
  from t have t4: "\<exists>h''. main_view 0 [738886, 738887] []
               [example_visits, example_filtered, dealer_table example_view,
                dealer_table example_view, metrics_chart example_view] = Inr (example_view, h'')
             \<and> take 1 h'' = [example_visits]"
    by simp
  from a example_render t2 t3 t4 show ?thesis by (intro conjI) assumption+
qed

subsection \<open>Yes-percentages\<close>

lemma coerced_yes_no: "coerced (yes_no c)"
  by (simp add: coerced_def yes_no_def)



lemma mean_no_value: "dropna cs = [] \<Longrightarrow> mean cs = Inr None"
  by (simp add: mean_def)



subsection \<open>Issue frequency\<close>

lemma extend_all_tags:
  "list_all tag_cell cs \<Longrightarrow> extend_all (dropna cs) acc = Inr (acc @ concat (map tags_of cs))"
proof (induction cs arbitrary: acc)
  case Nil
  then show ?case by (simp add: dropna_def)
next
  case (Cons c cs)
  then have ih: "\<And>acc. extend_all (dropna cs) acc = Inr (acc @ concat (map tags_of cs))" by simp
  from Cons.prems have "tag_cell c" by simp
  then show ?case
    using ih by (cases c) (simp_all add: tag_cell_def dropna_def notna_def)
qed

lemma value_counts_set:
  "set (value_counts xs) = (\<lambda>t. (t, count_list xs t)) ` set xs"
  by (simp add: value_counts_def unique_set)

lemma value_counts_keys: "mset (map fst (value_counts xs)) = mset (unique xs)"
proof -
  have "mset (value_counts xs) = mset (map (\<lambda>t. (t, count_list xs t)) (unique xs))"
    unfolding value_counts_def by (rule desc_sort_mset)
  then have "image_mset fst (mset (value_counts xs))
      = image_mset fst (mset (map (\<lambda>t. (t, count_list xs t)) (unique xs)))"
    by (rule arg_cong)
  then have "mset (map fst (value_counts xs))
      = mset (map fst (map (\<lambda>t. (t, count_list xs t)) (unique xs)))"
    by (simp only: mset_map)
  moreover have "map fst (map (\<lambda>t. (t, count_list xs t)) (unique xs)) = unique xs"
    by (simp add: o_def)
  ultimately show ?thesis by (simp only:)
qed

lemma value_counts_distinct: "distinct (map fst (value_counts xs))"
proof -
  have "distinct (map fst (value_counts xs)) = distinct (unique xs)"
    by (rule mset_eq_imp_distinct_iff [OF value_counts_keys])
  then show ?thesis by (simp only: unique_distinct)
qed

lemma value_counts_sorted: "sorted_wrt (\<lambda>a b. snd b \<le> snd a) (value_counts xs)"
  unfolding value_counts_def by (rule desc_sort_sorted)

text \<open>
  Claim C7. For a filtered table whose \<open>issues_list\<close> cells are tag lists or
  missing, the issue frequency has one entry per distinct tag of the tag lists, each with
  the number of occurrences of the tag in all the lists together; a missing cell
  contributes no tag; and the entries stand in descending order of their counts.
\<close>

theorem issues_counts_correct:
  assumes g: "getcol filtered_df ''issues_list'' = Inr col"
    and t: "list_all tag_cell col"
  shows "\<exists>freq. issues_counts filtered_df = Inr freq
           \<and> distinct (map fst freq)
           \<and> set freq = (\<lambda>t. (t, count_list (concat (map tags_of col)) t)) ` set (concat (map tags_of col))
           \<and> sorted_wrt (\<lambda>a b. snd b \<le> snd a) freq"
proof -
  have "issues_counts filtered_df = Inr (value_counts (concat (map tags_of col)))"
    by (simp add: issues_counts_def g extend_all_tags [OF t])
  then show ?thesis
    using value_counts_distinct [of "concat (map tags_of col)"]
      value_counts_set [of "concat (map tags_of col)"]
      value_counts_sorted [of "concat (map tags_of col)"]
    by (intro exI [of _ "value_counts (concat (map tags_of col))"] conjI) assumption+
qed

theorem issues_counts_correct_witness:
  "list_all tag_cell [Tags [''noise'', ''pricing''], Tags [[]], Tags [''noise'']]
   \<and> (\<exists>freq. issues_counts example_visits = Inr freq
         \<and> distinct (map fst freq)
         \<and> set freq = {(''noise'', 2), (''pricing'', 1), ([], 1)}
         \<and> sorted_wrt (\<lambda>a b. snd b \<le> snd a) freq)"
proof -
  have a: "list_all tag_cell [Tags [''noise'', ''pricing''], Tags [[]], Tags [''noise'']]"
    by (simp add: tag_cell_def)
  have e: "(\<lambda>t. (t, count_list (concat (map tags_of [Tags [''noise'', ''pricing''], Tags [[]], Tags [''noise'']])) t))
             ` set (concat (map tags_of [Tags [''noise'', ''pricing''], Tags [[]], Tags [''noise'']]))
           = {(''noise'', 2), (''pricing'', 1), ([], 1)}"
    by auto
  from issues_counts_correct [OF example_columns(6) a]
  have "\<exists>freq. issues_counts example_visits = Inr freq
         \<and> distinct (map fst freq)
         \<and> set freq = {(''noise'', 2), (''pricing'', 1), ([], 1)}
         \<and> sorted_wrt (\<lambda>a b. snd b \<le> snd a) freq"
    unfolding e .
  with a show ?thesis by (rule conjI)
qed

subsection \<open>Dealer summary\<close>

lemma group_no_null:
  "Null \<notin> set cs \<Longrightarrow> Null \<notin> set (map snd (filter P (zip ds cs)))"
  by (auto dest: set_zip_rightD)

lemma group_count:
  "length ds = length ts \<Longrightarrow>
   length (filter (\<lambda>(d, t). d = k) (zip ds ts)) = count_list ds k"
  by (induction ds ts rule: list_induct2) simp_all

lemma group_first:
  "length ds = length cs \<Longrightarrow> k \<in> set ds \<Longrightarrow>
   (case map snd (filter (\<lambda>(d, c). d = k) (zip ds cs)) of [] \<Rightarrow> Null | c # rest \<Rightarrow> c)
     = cs ! first_index ds k"
proof (induction ds cs rule: list_induct2)
  case Nil
  then show ?case by simp
next
  case (Cons d ds c cs)
  show ?case
  proof (cases "d = k")
    case True
    then show ?thesis by (simp add: first_index_def)
  next
    case False
    then have "k \<in> set ds" using Cons.prems by simp
    then show ?thesis using Cons.IH False by (simp add: first_index_def)
  qed
qed

lemma first_valid_group:
  assumes "length ds = length cs" "k \<in> set ds" "Null \<notin> set cs"
  shows "first_valid (map snd (filter (\<lambda>(d, c). d = k) (zip ds cs))) = cs ! first_index ds k"
proof -
  have d: "dropna (map snd (filter (\<lambda>(d, c). d = k) (zip ds cs)))
        = map snd (filter (\<lambda>(d, c). d = k) (zip ds cs))"
    by (rule dropna_id) (rule group_no_null [OF assms(3)])
  show ?thesis
    unfolding first_valid_def d by (rule group_first [OF assms(1,2)])
qed

lemma count_group:
  assumes "length ds = length ts" "Null \<notin> set ts"
  shows "length (dropna (map snd (filter (\<lambda>(d, t). d = k) (zip ds ts)))) = count_list ds k"
proof -
  have "dropna (map snd (filter (\<lambda>(d, t). d = k) (zip ds ts)))
        = map snd (filter (\<lambda>(d, t). d = k) (zip ds ts))"
    by (rule dropna_id) (rule group_no_null [OF assms(2)])
  then show ?thesis by (simp add: group_count [OF assms(1)])
qed

lemma groupby_agg_rows:
  assumes d: "getcol df ''dealer'' = Inr ds"
    and s: "getcol df ''submitted_datetime'' = Inr ts"
    and c: "getcol df ''dealer_code'' = Inr cs"
    and nd: "Null \<notin> set ds" and nt: "Null \<notin> set ts" and nc: "Null \<notin> set cs"
  shows "groupby_agg df =
           Inr \<lparr>columns = [''dealer'', ''submitted_datetime'', ''dealer_code''],
                rows = map (\<lambda>k. [k, Num (of_nat (count_list ds k)), cs ! first_index ds k])
                         (sort_key group_key (unique ds))\<rparr>"
proof -
  have l1: "length ds = length ts" using getcol_length [OF d] getcol_length [OF s] by simp
  have l2: "length ds = length cs" using getcol_length [OF d] getcol_length [OF c] by simp
  have r: "[k,
            Num (of_nat (length (dropna (map snd (filter (\<lambda>(d, t). d = k) (zip ds ts)))))),
            first_valid (map snd (filter (\<lambda>(d, c). d = k) (zip ds cs)))]
         = [k, Num (of_nat (count_list ds k)), cs ! first_index ds k]"
    if "k \<in> set (sort_key group_key (unique ds))" for k
  proof -
    from that have k: "k \<in> set ds" by (simp add: unique_set)
    show ?thesis
      by (simp only: count_group [OF l1 nt] first_valid_group [OF l2 k nc])
  qed
  have "map (\<lambda>k. [k,
               Num (of_nat (length (dropna (map snd (filter (\<lambda>(d, t). d = k) (zip ds ts)))))),
               first_valid (map snd (filter (\<lambda>(d, c). d = k) (zip ds cs)))])
          (sort_key group_key (unique ds))
        = map (\<lambda>k. [k, Num (of_nat (count_list ds k)), cs ! first_index ds k])
            (sort_key group_key (unique ds))"
    by (rule map_cong [OF refl r])
  then show ?thesis
    by (simp add: groupby_agg_def d s c dropna_id [OF nd])
qed

lemma sum_counts: "distinct ks \<Longrightarrow> set ks = set ds \<Longrightarrow> (\<Sum>k\<leftarrow>ks. count_list ds k) = length ds"
proof -
  assume a: "distinct ks" and b: "set ks = set ds"
  have "(\<Sum>k\<leftarrow>ks. count_list ds k) = sum (count_list ds) (set ks)"
    using a by (simp add: sum_list_distinct_conv_sum_set)
  also have "\<dots> = length ds" using b by (simp add: sum_count_set)
  finally show ?thesis .
qed

lemma sum_list_of_nat: "(\<Sum>k\<leftarrow>ks. (of_nat (f k) :: rat)) = of_nat (\<Sum>k\<leftarrow>ks. f k)"
  by (induction ks) simp_all

lemma sum_list_desc_sort:
  fixes f :: "'a \<Rightarrow> rat"
  shows "sum_list (map f (rev (sort_key g (rev xs)))) = sum_list (map f xs)"
proof -
  have "mset (rev (sort_key g (rev xs))) = mset xs" by (rule desc_sort_mset)
  then have "image_mset f (mset (rev (sort_key g (rev xs)))) = image_mset f (mset xs)"
    by (rule arg_cong)
  then have "mset (map f (rev (sort_key g (rev xs)))) = mset (map f xs)"
    by (simp only: mset_map)
  then have "sum_mset (mset (map f (rev (sort_key g (rev xs))))) = sum_mset (mset (map f xs))"
    by (rule arg_cong)
  then show ?thesis by (simp only: sum_mset_sum_list)
qed

lemma two_visits_summary:
  "dealer_summary two_visits =
     Inr \<lparr>columns = summary_columns,
          rows = [[Str ''Dealer A'', Num 1, Str ''A1''], [Str ''Dealer B'', Num 1, Str ''B1'']]\<rparr>"
  by (simp add: dealer_summary_def groupby_agg_def getcol_def positions_def two_visits_def
      cell_at_def dropna_def notna_def unique_def first_valid_def set_columns_def
      summary_columns_def sort_values_desc_def)

lemma two_visits_dealers:
  "getcol two_visits ''dealer'' = Inr [Str ''Dealer B'', Str ''Dealer A'']"
  by (simp add: getcol_def positions_def two_visits_def cell_at_def)

lemma two_visits_ties:
  "\<not> ties_in_encounter_order [Str ''Dealer B'', Str ''Dealer A'']
         [[Str ''Dealer A'', Num 1, Str ''A1''], [Str ''Dealer B'', Num 1, Str ''B1'']]"
  by (simp add: ties_in_encounter_order_def first_index_def cell_at_def)

text \<open>
  Claim C4, as the code has it. For a filtered table with no missing dealer, timestamp
  or dealer code, the dealer summary has the three summary columns and one row per
  distinct dealer: the dealer, the number of its visits, and the dealer code of its
  first visit in the order of the rows. The number of rows is the number of distinct
  dealers, the rows stand in descending order of the number of visits, and the numbers
  of visits add up to the number of rows of the filtered table.
\<close>

theorem dealer_summary_rows:
  assumes d: "getcol filtered_df ''dealer'' = Inr ds"
    and s: "getcol filtered_df ''submitted_datetime'' = Inr ts"
    and c: "getcol filtered_df ''dealer_code'' = Inr cs"
    and nd: "Null \<notin> set ds" and nt: "Null \<notin> set ts" and nc: "Null \<notin> set cs"
  shows "\<exists>rs. dealer_summary filtered_df = Inr \<lparr>columns = summary_columns, rows = rs\<rparr>
           \<and> set rs = (\<lambda>k. [k, Num (of_nat (count_list ds k)), cs ! first_index ds k]) ` set ds
           \<and> length rs = card (set ds)
           \<and> sorted_wrt (\<lambda>r s. num_of (cell_at s 1) \<le> num_of (cell_at r 1)) rs
           \<and> sum_list (map (\<lambda>r. num_of (cell_at r 1)) rs) = of_nat (length (rows filtered_df))"
proof -
  let ?row = "\<lambda>k. [k, Num (of_nat (count_list ds k)), cs ! first_index ds k]"
  let ?keys = "sort_key group_key (unique ds)"
  let ?key = "\<lambda>r. num_of (cell_at r 1)"
  let ?rs = "rev (sort_key ?key (rev (map ?row ?keys)))"
  have p: "positions ''Number of Visits'' summary_columns = [1]"
    by (simp add: positions_def summary_columns_def)
  have n: "list_all (\<lambda>r. is_num (cell_at r 1)) (map ?row ?keys)"
    by (simp add: list_all_iff cell_at_def)
  have sv: "sort_values_desc \<lparr>columns = summary_columns, rows = map ?row ?keys\<rparr> ''Number of Visits''
      = Inr \<lparr>columns = summary_columns, rows = ?rs\<rparr>"
    unfolding sort_values_desc_def using n by (simp add: p)
  have ds: "dealer_summary filtered_df = Inr \<lparr>columns = summary_columns, rows = ?rs\<rparr>"
    unfolding dealer_summary_def groupby_agg_rows [OF d s c nd nt nc]
    by (simp add: set_columns_def sv)
  have k1: "set ?keys = set ds" by (simp add: unique_set)
  have k2: "distinct ?keys" by (simp add: unique_distinct)
  have a: "set ?rs = ?row ` set ds" using k1 by simp
  have "length ?rs = length (unique ds)" by simp
  also have "\<dots> = card (set ds)"
    using distinct_card [OF unique_distinct [of ds]] by (simp add: unique_set)
  finally have b: "length ?rs = card (set ds)" .
  have e: "sorted_wrt (\<lambda>r s. ?key s \<le> ?key r) ?rs" by (rule desc_sort_sorted)
  have "sum_list (map ?key ?rs) = sum_list (map ?key (map ?row ?keys))"
    by (rule sum_list_desc_sort)
  also have "\<dots> = (\<Sum>k\<leftarrow>?keys. of_nat (count_list ds k))"
    by (simp add: o_def cell_at_def)
  also have "\<dots> = of_nat (\<Sum>k\<leftarrow>?keys. count_list ds k)"
    by (rule sum_list_of_nat)
  also have "\<dots> = of_nat (length ds)" using sum_counts [OF k2 k1] by simp
  also have "\<dots> = of_nat (length (rows filtered_df))" using getcol_length [OF d] by simp
  finally have f: "sum_list (map ?key ?rs) = of_nat (length (rows filtered_df))" .
  from ds a b e f show ?thesis by (intro exI [of _ ?rs] conjI) assumption+
qed

theorem dealer_summary_rows_witness:
  "Null \<notin> set [Str ''Dealer A'', Str ''Dealer B'', Str ''Dealer A'']
   \<and> (\<exists>rs. dealer_summary example_visits = Inr \<lparr>columns = summary_columns, rows = rs\<rparr>
         \<and> set rs = {[Str ''Dealer A'', Num 2, Str ''A1''], [Str ''Dealer B'', Num 1, Str ''B1'']}
         \<and> length rs = 2
         \<and> sum_list (map (\<lambda>r. num_of (cell_at r 1)) rs) = 3)"
proof -
  have n: "Null \<notin> set [Str ''Dealer A'', Str ''Dealer B'', Str ''Dealer A'']"
    "Null \<notin> set [Time (Timestamp 738886 0), Time (Timestamp 738887 0), Time (Timestamp 738890 0)]"
    "Null \<notin> set [Str ''A1'', Str ''B1'', Str ''A1'']"
    by simp_all
  from dealer_summary_rows [OF example_columns(1) example_columns(2) example_columns(3) n]
  obtain rs where
    d: "dealer_summary example_visits = Inr \<lparr>columns = summary_columns, rows = rs\<rparr>"
    and s: "set rs = (\<lambda>k. [k, Num (of_nat (count_list [Str ''Dealer A'', Str ''Dealer B'', Str ''Dealer A''] k)),
                          [Str ''A1'', Str ''B1'', Str ''A1''] ! first_index [Str ''Dealer A'', Str ''Dealer B'', Str ''Dealer A''] k])
              ` set [Str ''Dealer A'', Str ''Dealer B'', Str ''Dealer A'']"
    and l: "length rs = card (set [Str ''Dealer A'', Str ''Dealer B'', Str ''Dealer A''])"
    and t: "sum_list (map (\<lambda>r. num_of (cell_at r 1)) rs) = of_nat (length (rows example_visits))"
    by blast
  from s have s': "set rs = {[Str ''Dealer A'', Num 2, Str ''A1''], [Str ''Dealer B'', Num 1, Str ''B1'']}"
    by (auto simp: first_index_def)
  from l have l': "length rs = 2" by (simp add: card_insert_if)
  from t have t': "sum_list (map (\<lambda>r. num_of (cell_at r 1)) rs) = 3"
    by (simp add: example_visits_def)
  from n(1) d s' l' t' show ?thesis by blast
qed

text \<open>Rows with the same number of visits are not in the order in which the dealers are
  first met: the grouping orders the dealers by name, and the sort keeps that order.\<close>

theorem tie_order_counterexample:
  "dealer_summary two_visits =
     Inr \<lparr>columns = summary_columns,
          rows = [[Str ''Dealer A'', Num 1, Str ''A1''], [Str ''Dealer B'', Num 1, Str ''B1'']]\<rparr>
   \<and> getcol two_visits ''dealer'' = Inr [Str ''Dealer B'', Str ''Dealer A'']
   \<and> \<not> ties_in_encounter_order [Str ''Dealer B'', Str ''Dealer A'']
         [[Str ''Dealer A'', Num 1, Str ''A1''], [Str ''Dealer B'', Num 1, Str ''B1'']]"
  by (intro conjI two_visits_summary two_visits_dealers two_visits_ties)

end
